theory Spec2Isabelle
  imports Main "HOL-Library.AList"
begin

section \<open>Python values\<close>

text \<open>
  The values that travel through slots, entities, documents and state deltas:
  \<open>None\<close>, booleans, integers, text and lists of these. Floating-point numbers and
  nested JSON objects are outside the model. A Python \<open>dict\<close> with text keys is an
  association list in insertion order. Text is a list of code points below 256: a
  \<open>char\<close> is the code point of that number.
\<close>

datatype pyval = PNone | PBool bool | PInt int | PStr string | PList "pyval list"

type_synonym pydict = "(string \<times> pyval) list"

text \<open>Every \<open>raise\<close> of the code is a value. \<open>NotFoundError\<close> is what the
  Elasticsearch client raises when asked for a document that the index does not hold;
  \<open>StoreFault\<close> is any other fault of the client, by its name.\<close>

datatype error =
  KeyError pyval | TypeError | ValueError | NotFoundError | StoreFault string

text \<open>\<open>bool(x)\<close>: the truth value Python tests in \<open>if x\<close> and \<open>not x\<close>.\<close>

fun py_truthy :: "pyval \<Rightarrow> bool" where
  "py_truthy PNone = False"
| "py_truthy (PBool b) = b"
| "py_truthy (PInt i) = (i \<noteq> 0)"
| "py_truthy (PStr s) = (s \<noteq> [])"
| "py_truthy (PList xs) = (xs \<noteq> [])"

text \<open>\<open>x == y\<close>: structural, except that \<open>True == 1\<close> and \<open>False == 0\<close>.\<close>

fun py_eq :: "pyval \<Rightarrow> pyval \<Rightarrow> bool"
  and py_eq_list :: "pyval list \<Rightarrow> pyval list \<Rightarrow> bool" where
  "py_eq PNone PNone = True"
| "py_eq (PBool a) (PBool b) = (a = b)"
| "py_eq (PBool a) (PInt b) = ((if a then 1 else 0) = b)"
| "py_eq (PInt a) (PBool b) = (a = (if b then 1 else 0))"
| "py_eq (PInt a) (PInt b) = (a = b)"
| "py_eq (PStr a) (PStr b) = (a = b)"
| "py_eq (PList a) (PList b) = py_eq_list a b"
| "py_eq _ _ = False"
| "py_eq_list [] [] = True"
| "py_eq_list (x # xs) (y # ys) = (py_eq x y \<and> py_eq_list xs ys)"
| "py_eq_list _ _ = False"

text \<open>\<open>str(x)\<close> and \<open>repr(x)\<close>. A list prints the \<open>repr\<close> of its elements.\<close>

fun digits :: "nat \<Rightarrow> string" where
  "digits n = (if n < 10 then [''0123456789'' ! n]
               else digits (n div 10) @ [''0123456789'' ! (n mod 10)])"

declare digits.simps [simp del]

definition str_int :: "int \<Rightarrow> string" where
  "str_int i = (if i < 0 then CHR ''-'' # digits (nat (- i)) else digits (nat i))"

definition hex2 :: "nat \<Rightarrow> string" where
  "hex2 n = [''0123456789abcdef'' ! (n div 16 mod 16), ''0123456789abcdef'' ! (n mod 16)]"

text \<open>\<open>str.isprintable\<close> on one code point below 256: the controls (0 to 31 and
  127 to 159), the no-break space (160) and the soft hyphen (173) are not printable.\<close>

definition is_printable :: "char \<Rightarrow> bool" where
  "is_printable c =
     (let n = (of_char c :: nat) in \<not> (n < 32 \<or> (127 \<le> n \<and> n \<le> 160) \<or> n = 173))"

definition escape_char :: "char \<Rightarrow> char \<Rightarrow> string" where
  "escape_char q c =
     (if c = q \<or> c = CHR 0x5C then [CHR 0x5C, c]
      else if c = CHR 0x0A then [CHR 0x5C, CHR ''n'']
      else if c = CHR 0x0D then [CHR 0x5C, CHR ''r'']
      else if c = CHR 0x09 then [CHR 0x5C, CHR ''t'']
      else if \<not> is_printable c then [CHR 0x5C, CHR ''x''] @ hex2 (of_char c)
      else [c])"

definition repr_str :: "string \<Rightarrow> string" where
  "repr_str s =
     (let q = (if CHR 0x27 \<in> set s \<and> CHR 0x22 \<notin> set s then CHR 0x22 else CHR 0x27)
      in q # concat (map (escape_char q) s) @ [q])"

fun join :: "string \<Rightarrow> string list \<Rightarrow> string" where
  "join sep [] = []"
| "join sep [x] = x"
| "join sep (x # y # ys) = x @ sep @ join sep (y # ys)"

fun py_repr :: "pyval \<Rightarrow> string" where
  "py_repr PNone = ''None''"
| "py_repr (PBool b) = (if b then ''True'' else ''False'')"
| "py_repr (PInt i) = str_int i"
| "py_repr (PStr s) = repr_str s"
| "py_repr (PList xs) = ''['' @ join '', '' (map py_repr xs) @ '']''"

fun py_str :: "pyval \<Rightarrow> string" where
  "py_str (PStr s) = s"
| "py_str v = py_repr v"

text \<open>\<open>int(x)\<close>: an integer or boolean converts, text is parsed (surrounding
  whitespace, an optional sign, decimal digits with single underscores between them),
  anything else is a \<open>TypeError\<close>. The whitespace below 256 is the space, the
  controls 9 to 13 and 28 to 31, the next-line control (133) and the no-break space
  (160).\<close>

definition is_space :: "char \<Rightarrow> bool" where
  "is_space c =
     (c \<in> set [CHR 0x20, CHR 0x09, CHR 0x0A, CHR 0x0B, CHR 0x0C, CHR 0x0D,
                CHR 0x1C, CHR 0x1D, CHR 0x1E, CHR 0x1F, CHR 0x85, CHR 0xA0])"

definition strip :: "string \<Rightarrow> string" where
  "strip s = rev (dropWhile is_space (rev (dropWhile is_space s)))"

definition is_digit :: "char \<Rightarrow> bool" where
  "is_digit c = (48 \<le> (of_char c :: nat) \<and> (of_char c :: nat) \<le> 57)"

definition digit_val :: "char \<Rightarrow> nat" where
  "digit_val c = of_char c - 48"

fun parse_digits :: "nat \<Rightarrow> string \<Rightarrow> nat option" where
  "parse_digits acc [] = Some acc"
| "parse_digits acc [c] = (if is_digit c then Some (acc * 10 + digit_val c) else None)"
| "parse_digits acc (c # d # ds) =
     (if c = CHR ''_'' then
        (if is_digit d then parse_digits (acc * 10 + digit_val d) ds else None)
      else if is_digit c then parse_digits (acc * 10 + digit_val c) (d # ds)
      else None)"

definition parse_nat :: "string \<Rightarrow> nat option" where
  "parse_nat s = (case s of [] \<Rightarrow> None
                  | c # cs \<Rightarrow> if is_digit c then parse_digits (digit_val c) cs else None)"

definition parse_int :: "string \<Rightarrow> error + int" where
  "parse_int s =
     (case strip s of
        [] \<Rightarrow> Inl ValueError
      | c # cs \<Rightarrow>
          if c = CHR ''-'' then
            (case parse_nat cs of None \<Rightarrow> Inl ValueError | Some n \<Rightarrow> Inr (- int n))
          else if c = CHR ''+'' then
            (case parse_nat cs of None \<Rightarrow> Inl ValueError | Some n \<Rightarrow> Inr (int n))
          else
            (case parse_nat (c # cs) of None \<Rightarrow> Inl ValueError | Some n \<Rightarrow> Inr (int n)))"

fun py_int :: "pyval \<Rightarrow> error + int" where
  "py_int (PInt i) = Inr i"
| "py_int (PBool b) = Inr (if b then 1 else 0)"
| "py_int (PStr s) = parse_int s"
| "py_int _ = Inl TypeError"

text \<open>Reading a dict that has text keys with an arbitrary key: a list is unhashable
  and raises, any other key that is not text is simply absent.\<close>

fun dict_find :: "(string \<times> 'a) list \<Rightarrow> pyval \<Rightarrow> error + 'a option" where
  "dict_find d (PStr k) = Inr (map_of d k)"
| "dict_find d (PList xs) = Inl TypeError"
| "dict_find d _ = Inr None"

text \<open>\<open>d[k]\<close> on a value that is a dict or \<open>None\<close>: \<open>None\<close> is not
  subscriptable, a missing key raises \<open>KeyError\<close>.\<close>

fun subscript :: "pydict option \<Rightarrow> string \<Rightarrow> error + pyval" where
  "subscript None k = Inl TypeError"
| "subscript (Some d) k = (case map_of d k of None \<Rightarrow> Inl (KeyError (PStr k)) | Some v \<Rightarrow> Inr v)"

section \<open>storage.py: attribute strategies\<close>

text \<open>A query fragment, one constructor per shape the generators build:
  \<open>{"fuzzy": {a: {"value": v}}}\<close>, \<open>{"match": {a: {"query": v}}}\<close>,
  \<open>{"match_phrase": {a: {"query": v}}}\<close> and \<open>{"range": {a: {role: v}}}\<close>.\<close>

datatype fragment =
    Fuzzy string pyval
  | Match string pyval
  | MatchPhrase string pyval
  | Range string pyval pyval

definition generate_term_query :: "string \<Rightarrow> pyval \<Rightarrow> fragment" where
  "generate_term_query attribute v = Fuzzy attribute v"

definition generate_match_query :: "string \<Rightarrow> pyval \<Rightarrow> fragment" where
  "generate_match_query attribute v = Match attribute v"

definition generate_match_phrase_query :: "string \<Rightarrow> pyval \<Rightarrow> fragment" where
  "generate_match_phrase_query attribute v = MatchPhrase attribute v"

text \<open>The range fragment: the role is the key of the inner dict, the value its entry.\<close>

definition generate_range_query :: "string \<Rightarrow> pyval \<Rightarrow> pyval \<Rightarrow> fragment" where
  "generate_range_query attribute v role = Range attribute role v"

datatype Attribute = DefaultAttribute string | TextAttribute string | RangeAttribute string

fun attr_name :: "Attribute \<Rightarrow> string" where
  "attr_name (DefaultAttribute n) = n"
| "attr_name (TextAttribute n) = n"
| "attr_name (RangeAttribute n) = n"

text \<open>\<open>get_field\<close> is inherited from \<open>DefaultAttribute\<close> by both subclasses:
  \<open>document.get(self._name)\<close>.\<close>

definition get_field :: "Attribute \<Rightarrow> pydict \<Rightarrow> pyval" where
  "get_field a document = (case map_of document (attr_name a) of None \<Rightarrow> PNone | Some v \<Rightarrow> v)"

fun generate_query :: "Attribute \<Rightarrow> pyval \<Rightarrow> pyval \<Rightarrow> fragment" where
  "generate_query (DefaultAttribute n) v role = generate_match_query n v"
| "generate_query (TextAttribute n) v role = generate_match_phrase_query n v"
| "generate_query (RangeAttribute n) v role =
     (if py_eq role (PStr ''eq'') then generate_match_query n v
      else generate_range_query n v role)"

section \<open>storage.py: document types and the knowledge base\<close>

text \<open>A \<open>DocumentType\<close> has an index name, its attributes (a dict, in declaration
  order) and the abstract method \<open>to_string\<close>, a field here. The argument of
  \<open>to_string\<close> is a document or \<open>None\<close>: the join query passes the result of a
  lookup to it unchecked.\<close>

record DocumentType =
  index :: string
  attributes :: "(string \<times> Attribute) list"
  to_string :: "pydict option \<Rightarrow> error + string"

text \<open>A hit of the store: the fields \<open>_source\<close> and \<open>_id\<close> of the client's answer.\<close>

record hit =
  hit_source :: pydict
  hit_id :: pyval

text \<open>The body of a search: \<open>{"size": limit, "query": {"bool": {"must": queries}}}\<close>.\<close>

record search_body =
  body_size :: int
  body_must :: "fragment list"

text \<open>
  The Elasticsearch client is a parameter. \<open>es_search index body\<close> is
  \<open>es.search(index=index, body=body)['hits']['hits']\<close>; \<open>es_get index id\<close> is
  \<open>es.get(index=index, id=id)\<close>, where \<open>None\<close> stands for an answer that is
  false in a Python test. Either call may raise. The client of the elasticsearch
  package, which the action builds, answers a document the index does not hold by
  raising \<open>NotFoundError\<close>, not by an answer that is false.
\<close>

record es_client =
  es_search :: "string \<Rightarrow> search_body \<Rightarrow> error + hit list"
  es_get :: "string \<Rightarrow> pyval \<Rightarrow> error + hit option"

text \<open>
  \<open>ElasticsearchKnowledgeBase\<close>: the document types and the client, and the two
  tables it inherits from the rasa_sdk class \<open>KnowledgeBase\<close> (the key attribute and
  the representation function of an object type), which are parameters as well.
\<close>

record ElasticsearchKnowledgeBase =
  document_types :: "(string \<times> DocumentType) list"
  es :: es_client
  key_attribute :: "pyval \<Rightarrow> string"
  representation_function :: "pyval \<Rightarrow> pydict \<Rightarrow> error + pyval"

text \<open>\<open>self.document_types[object_type]\<close>.\<close>

definition document_type_of ::
  "ElasticsearchKnowledgeBase \<Rightarrow> pyval \<Rightarrow> error + DocumentType" where
  "document_type_of kb object_type =
     (case dict_find (document_types kb) object_type of
        Inl e \<Rightarrow> Inl e
      | Inr None \<Rightarrow> Inl (KeyError object_type)
      | Inr (Some dt) \<Rightarrow> Inr dt)"

text \<open>The dict comprehension of \<open>to_kb_obj\<close>, then the two assignments.\<close>

definition to_kb_obj :: "ElasticsearchKnowledgeBase \<Rightarrow> hit \<Rightarrow> pyval \<Rightarrow> error + pydict" where
  "to_kb_obj kb obj object_type =
     (let source = hit_source obj in
      case document_type_of kb object_type of
        Inl e \<Rightarrow> Inl e
      | Inr document_type \<Rightarrow>
          (case to_string document_type (Some source) of
             Inl e \<Rightarrow> Inl e
           | Inr pretty \<Rightarrow>
               let ident = hit_id obj;
                   name = pretty;
                   kb_obj = map (\<lambda>(n, attribute). (n, get_field attribute source))
                              (attributes document_type);
                   kb_obj = AList.update ''name'' (PStr name) kb_obj;
                   kb_obj = AList.update ''id'' ident kb_obj
               in Inr kb_obj))"

definition get_attributes_of_object ::
  "ElasticsearchKnowledgeBase \<Rightarrow> pyval \<Rightarrow> error + string list" where
  "get_attributes_of_object kb object_type =
     (case dict_find (document_types kb) object_type of
        Inl e \<Rightarrow> Inl e
      | Inr None \<Rightarrow> Inr []
      | Inr (Some dt) \<Rightarrow> Inr (map fst (attributes dt)))"

text \<open>An attribute filter: the dict \<open>{"name": .., "value": .., "role": ..}\<close>.\<close>

record attribute_filter =
  f_name :: string
  f_value :: pyval
  f_role :: pyval

text \<open>The list comprehensions of \<open>get_objects\<close> stop at the first element that
  raises.\<close>

fun collect :: "('a \<Rightarrow> error + 'b) \<Rightarrow> 'a list \<Rightarrow> error + 'b list" where
  "collect f [] = Inr []"
| "collect f (x # xs) =
     (case f x of
        Inl e \<Rightarrow> Inl e
      | Inr y \<Rightarrow> (case collect f xs of Inl e \<Rightarrow> Inl e | Inr ys \<Rightarrow> Inr (y # ys)))"

definition filter_query :: "DocumentType \<Rightarrow> attribute_filter \<Rightarrow> error + fragment" where
  "filter_query document_type attribute =
     (case map_of (attributes document_type) (f_name attribute) of
        None \<Rightarrow> Inl (KeyError (PStr (f_name attribute)))
      | Some a \<Rightarrow> Inr (generate_query a (f_value attribute) (f_role attribute)))"

text \<open>The query that \<open>get_objects\<close> sends; the limit defaults to 5.\<close>

definition search_query ::
  "DocumentType \<Rightarrow> attribute_filter list \<Rightarrow> int option \<Rightarrow> error + search_body" where
  "search_query document_type attrs limit =
     (case collect (filter_query document_type) attrs of
        Inl e \<Rightarrow> Inl e
      | Inr queries \<Rightarrow>
          Inr \<lparr>body_size = (case limit of None \<Rightarrow> 5 | Some n \<Rightarrow> n), body_must = queries\<rparr>)"

definition get_objects ::
  "ElasticsearchKnowledgeBase \<Rightarrow> pyval \<Rightarrow> attribute_filter list \<Rightarrow> int option
     \<Rightarrow> error + pydict list" where
  "get_objects kb object_type attrs limit =
     (case dict_find (document_types kb) object_type of
        Inl e \<Rightarrow> Inl e
      | Inr None \<Rightarrow> Inr []
      | Inr (Some document_type) \<Rightarrow>
          (case search_query document_type attrs limit of
             Inl e \<Rightarrow> Inl e
           | Inr query \<Rightarrow>
               (case es_search (es kb) (index document_type) query of
                  Inl e \<Rightarrow> Inl e
                | Inr hits \<Rightarrow> collect (\<lambda>h. to_kb_obj kb h object_type) hits)))"

definition get_object ::
  "ElasticsearchKnowledgeBase \<Rightarrow> pyval \<Rightarrow> pyval \<Rightarrow> error + pydict option" where
  "get_object kb object_type object_identifier =
     (case dict_find (document_types kb) object_type of
        Inl e \<Rightarrow> Inl e
      | Inr None \<Rightarrow> Inr None
      | Inr (Some document_type) \<Rightarrow>
          (case es_get (es kb) (index document_type) object_identifier of
             Inl e \<Rightarrow> Inl e
           | Inr None \<Rightarrow> Inr None
           | Inr (Some obj) \<Rightarrow>
               (case to_kb_obj kb obj object_type of
                  Inl e \<Rightarrow> Inl e
                | Inr kb_obj \<Rightarrow> Inr (Some kb_obj))))"

section \<open>actions.py: the registered document types\<close>

text \<open>\<open>f'{document["title"]} from {document["publication_year"]}'\<close>, the
  \<open>to_string\<close> of books and of movies.\<close>

definition title_from_year :: "pydict option \<Rightarrow> error + string" where
  "title_from_year document =
     (case subscript document ''title'' of
        Inl e \<Rightarrow> Inl e
      | Inr title \<Rightarrow>
          (case subscript document ''publication_year'' of
             Inl e \<Rightarrow> Inl e
           | Inr year \<Rightarrow> Inr (py_str title @ '' from '' @ py_str year)))"

text \<open>\<open>f'{document["mean_rating"]} out of 10 ({document["total_votes"]} votes)'\<close>.\<close>

definition rating_out_of_10 :: "pydict option \<Rightarrow> error + string" where
  "rating_out_of_10 document =
     (case subscript document ''mean_rating'' of
        Inl e \<Rightarrow> Inl e
      | Inr mean_rating \<Rightarrow>
          (case subscript document ''total_votes'' of
             Inl e \<Rightarrow> Inl e
           | Inr total_votes \<Rightarrow>
               Inr (py_str mean_rating @ '' out of 10 ('' @ py_str total_votes @ '' votes)'')))"

definition BookDocumentType :: "string \<Rightarrow> DocumentType" where
  "BookDocumentType idx =
     \<lparr>index = idx,
      attributes =
        [(''title'', TextAttribute ''title''),
         (''author'', TextAttribute ''author''),
         (''publication_year'', RangeAttribute ''publication_year''),
         (''genres'', TextAttribute ''genres''),
         (''summary'', DefaultAttribute ''summary'')],
      to_string = title_from_year\<rparr>"

definition MovieDocumentType :: "string \<Rightarrow> DocumentType" where
  "MovieDocumentType idx =
     \<lparr>index = idx,
      attributes =
        [(''title'', TextAttribute ''title''),
         (''publication_year'', RangeAttribute ''publication_year''),
         (''genres'', TextAttribute ''genres''),
         (''summary'', DefaultAttribute ''summary''),
         (''actors'', TextAttribute ''actors''),
         (''director'', TextAttribute ''director'')],
      to_string = title_from_year\<rparr>"

definition RatingDocumentType :: "string \<Rightarrow> DocumentType" where
  "RatingDocumentType idx =
     \<lparr>index = idx,
      attributes =
        [(''mean_rating'', DefaultAttribute ''mean_rating''),
         (''total_votes'', DefaultAttribute ''total_votes'')],
      to_string = rating_out_of_10\<rparr>"

text \<open>The knowledge base the action builds in \<open>__init__\<close>, over a given client. The
  base class fills the two inherited tables with their defaults: the key attribute
  \<open>id\<close> and the representation \<open>obj["name"]\<close>.\<close>

definition knowledge_base :: "es_client \<Rightarrow> ElasticsearchKnowledgeBase" where
  "knowledge_base client =
     \<lparr>document_types =
        [(''book'', BookDocumentType ''book''),
         (''movie'', MovieDocumentType ''movie''),
         (''rating'', RatingDocumentType ''rating'')],
      es = client,
      key_attribute = (\<lambda>_. ''id''),
      representation_function = (\<lambda>_ obj. subscript (Some obj) ''name'')\<rparr>"

section \<open>actions.py: the tracker and the helpers\<close>

text \<open>\<open>re.sub(r"[{}\[\]]", "", text)\<close>.\<close>

definition sanitize :: "string \<Rightarrow> string" where
  "sanitize s = filter (\<lambda>c. c \<notin> set ''{}[]'') s"

text \<open>An entity of the latest message: its \<open>entity\<close> and \<open>value\<close> entries, and
  the \<open>role\<close> entry when the dict has one.\<close>

record entity =
  e_entity :: string
  e_value :: pyval
  e_role :: "pyval option"

text \<open>The tracker: the slots, and \<open>latest_message.get("entities", [])\<close>.\<close>

record Tracker =
  slots :: pydict
  latest_entities :: "entity list"

definition get_slot :: "Tracker \<Rightarrow> string \<Rightarrow> pyval" where
  "get_slot tracker k = (case map_of (slots tracker) k of None \<Rightarrow> PNone | Some v \<Rightarrow> v)"

text \<open>The slot names, as rasa_sdk and the module define them.\<close>

definition SLOT_MENTION :: string where "SLOT_MENTION = ''mention''"
definition SLOT_OBJECT_TYPE :: string where "SLOT_OBJECT_TYPE = ''object_type''"
definition SLOT_ATTRIBUTE :: string where "SLOT_ATTRIBUTE = ''attribute''"
definition SLOT_LISTED_OBJECTS :: string where
  "SLOT_LISTED_OBJECTS = ''knowledge_base_listed_objects''"
definition SLOT_LAST_OBJECT :: string where
  "SLOT_LAST_OBJECT = ''knowledge_base_last_object''"
definition SLOT_LAST_OBJECT_TYPE :: string where
  "SLOT_LAST_OBJECT_TYPE = ''knowledge_base_last_object_type''"
definition SLOT_LIMIT :: string where "SLOT_LIMIT = ''limit''"

datatype event = SlotSet string pyval

datatype message = UtterTemplate string | UtterText string

text \<open>The value of an attribute's slot, as both helpers read it:
  \<open>tracker.get_slot(attr) if attr in tracker.slots else None\<close>.\<close>

definition attr_slot :: "Tracker \<Rightarrow> string \<Rightarrow> pyval" where
  "attr_slot tracker attr =
     (if attr \<in> fst ` set (slots tracker) then get_slot tracker attr else PNone)"

text \<open>The roles of the entities that match an attribute and its value and carry a
  role.\<close>

definition entity_roles :: "entity list \<Rightarrow> string \<Rightarrow> pyval \<Rightarrow> pyval list" where
  "entity_roles entities attr attr_val =
     List.map_filter
       (\<lambda>e. if e_entity e = attr \<and> py_eq (e_value e) attr_val then e_role e else None)
       entities"

fun get_attribute_slots :: "Tracker \<Rightarrow> string list \<Rightarrow> attribute_filter list" where
  "get_attribute_slots tracker [] = []"
| "get_attribute_slots tracker (attr # object_attributes) =
     (let attr_val = attr_slot tracker attr in
      if attr_val \<noteq> PNone then
        (let role = entity_roles (latest_entities tracker) attr attr_val;
             role = (case role of [] \<Rightarrow> PNone | r # _ \<Rightarrow> r)
         in \<lparr>f_name = attr, f_value = attr_val, f_role = role\<rparr>
              # get_attribute_slots tracker object_attributes)
      else get_attribute_slots tracker object_attributes)"

text \<open>\<open>reset_attribute_slots\<close> of rasa_sdk: one \<open>SlotSet(attr, None)\<close> for every
  attribute whose slot holds a value.\<close>

fun reset_attribute_slots :: "Tracker \<Rightarrow> string list \<Rightarrow> event list" where
  "reset_attribute_slots tracker [] = []"
| "reset_attribute_slots tracker (attr # object_attributes) =
     (if attr_slot tracker attr \<noteq> PNone
      then SlotSet attr PNone # reset_attribute_slots tracker object_attributes
      else reset_attribute_slots tracker object_attributes)"

section \<open>actions.py: the action\<close>

text \<open>
  A method that talks to the dispatcher returns the messages it dispatched, in order,
  and its outcome: the messages sent before a \<open>raise\<close> stay sent.

  What the action inherits from \<open>ActionQueryKnowledgeBase\<close> of rasa_sdk and does not
  override is a parameter: \<open>get_object_name\<close> (the resolution of a mention, an
  ordinal or the last object to a name, or \<open>None\<close>) and \<open>_query_attribute\<close>.
\<close>

type_synonym 'a outcome = "message list \<times> (error + 'a)"

record rasa_sdk =
  get_object_name :: "Tracker \<Rightarrow> pyval"
  query_attribute :: "pyval \<Rightarrow> pyval \<Rightarrow> Tracker \<Rightarrow> event list outcome"

text \<open>\<open>attribute['name'] + ': ' + attribute['value']\<close> needs a text value.\<close>

definition attribute_repr :: "attribute_filter \<Rightarrow> error + string" where
  "attribute_repr a =
     (case f_value a of PStr v \<Rightarrow> Inr (f_name a @ '': '' @ v) | _ \<Rightarrow> Inl TypeError)"

definition attributes_repr :: "attribute_filter list \<Rightarrow> error + string" where
  "attributes_repr attrs =
     (if attrs \<noteq> [] then
        (case collect attribute_repr attrs of
           Inl e \<Rightarrow> Inl e
         | Inr parts \<Rightarrow> Inr ('' with '' @ join '', '' parts))
      else Inr [])"

text \<open>The loop of \<open>utter_objects\<close> over \<open>enumerate(objects, 1)\<close>.\<close>

fun utter_enumerated ::
  "(pydict \<Rightarrow> error + pyval) \<Rightarrow> nat \<Rightarrow> pydict list \<Rightarrow> unit outcome" where
  "utter_enumerated repr_function i [] = ([], Inr ())"
| "utter_enumerated repr_function i (obj # objects) =
     (case repr_function obj of
        Inl e \<Rightarrow> ([], Inl e)
      | Inr r \<Rightarrow>
          (case utter_enumerated repr_function (Suc i) objects of
             (msgs, res) \<Rightarrow> (UtterText (digits i @ '': '' @ py_str r) # msgs, res)))"

definition utter_objects ::
  "ElasticsearchKnowledgeBase \<Rightarrow> pyval \<Rightarrow> pydict list \<Rightarrow> attribute_filter list
     \<Rightarrow> unit outcome" where
  "utter_objects kb object_type objects attrs =
     (case attributes_repr attrs of
        Inl e \<Rightarrow> ([], Inl e)
      | Inr a_repr \<Rightarrow>
          if objects \<noteq> [] then
            (case utter_enumerated (representation_function kb object_type) 1 objects of
               (msgs, res) \<Rightarrow>
                 (UtterText (''I found the following '' @ py_str object_type @ ''s ''
                      @ a_repr @ '':'') # msgs, res))
          else
            ([UtterText (''I could not find any '' @ py_str object_type @ ''s ''
                 @ a_repr @ ''.'')], Inr ()))"

definition utter_attribute_value :: "pyval \<Rightarrow> pyval \<Rightarrow> pyval \<Rightarrow> message list" where
  "utter_attribute_value object_name attribute_name attribute_value =
     (if py_truthy attribute_value then
        [UtterText (sanitize (py_str attribute_value) @ ''.'')]
      else
        [UtterText (''Did not find a valid value for attribute '' @ [CHR 0x27]
           @ py_str attribute_name @ [CHR 0x27] @ '' for object '' @ [CHR 0x27]
           @ py_str object_name @ [CHR 0x27] @ ''.'')])"

text \<open>\<open>var_args\<close> of \<open>_query_objects\<close>: the limit when the slot holds one.\<close>

definition limit_arg :: "pyval \<Rightarrow> error + int option" where
  "limit_arg limit =
     (if py_truthy limit then
        (case py_int limit of Inl e \<Rightarrow> Inl e | Inr n \<Rightarrow> Inr (Some n))
      else Inr None)"

definition query_objects ::
  "ElasticsearchKnowledgeBase \<Rightarrow> pyval \<Rightarrow> Tracker \<Rightarrow> event list outcome" where
  "query_objects kb object_type tracker =
     (case get_attributes_of_object kb object_type of
        Inl e \<Rightarrow> ([], Inl e)
      | Inr object_attributes \<Rightarrow>
          (let limit = get_slot tracker SLOT_LIMIT;
               attrs = get_attribute_slots tracker object_attributes
           in case limit_arg limit of
                Inl e \<Rightarrow> ([], Inl e)
              | Inr var_args \<Rightarrow>
                  (case get_objects kb object_type attrs var_args of
                     Inl e \<Rightarrow> ([], Inl e)
                   | Inr objects \<Rightarrow>
                       (case utter_objects kb object_type objects attrs of
                          (msgs, Inl e) \<Rightarrow> (msgs, Inl e)
                        | (msgs, Inr _) \<Rightarrow>
                            (case objects of
                               [] \<Rightarrow> (msgs, Inr (reset_attribute_slots tracker object_attributes))
                             | obj0 # _ \<Rightarrow>
                                 (let k = key_attribute kb object_type in
                                  case (if length objects > 1 then Inr PNone
                                        else subscript (Some obj0) k) of
                                    Inl e \<Rightarrow> (msgs, Inl e)
                                  | Inr last_object \<Rightarrow>
                                      (case collect (\<lambda>e. subscript (Some e) k) objects of
                                         Inl e \<Rightarrow> (msgs, Inl e)
                                       | Inr listed \<Rightarrow>
                                           (msgs, Inr
                                             ([SlotSet SLOT_OBJECT_TYPE object_type,
                                               SlotSet SLOT_MENTION PNone,
                                               SlotSet SLOT_ATTRIBUTE PNone,
                                               SlotSet SLOT_LAST_OBJECT last_object,
                                               SlotSet SLOT_LAST_OBJECT_TYPE object_type,
                                               SlotSet SLOT_LISTED_OBJECTS (PList listed),
                                               SlotSet SLOT_LIMIT PNone]
                                              @ reset_attribute_slots tracker
                                                  object_attributes)))))))))"

text \<open>\<open>not last_object\<close> for a lookup's result: \<open>None\<close> or an empty dict.\<close>

fun dict_truthy :: "pydict option \<Rightarrow> bool" where
  "dict_truthy None = False"
| "dict_truthy (Some d) = (d \<noteq> [])"

definition query_join_objects ::
  "ElasticsearchKnowledgeBase \<Rightarrow> rasa_sdk \<Rightarrow> pyval \<Rightarrow> pyval \<Rightarrow> Tracker
     \<Rightarrow> event list outcome" where
  "query_join_objects kb sdk object_type last_object_type tracker =
     (case get_attributes_of_object kb object_type of
        Inl e \<Rightarrow> ([], Inl e)
      | Inr object_attributes \<Rightarrow>
          (let object_name = get_object_name sdk tracker in
           case get_object kb last_object_type object_name of
             Inl e \<Rightarrow> ([], Inl e)
           | Inr last_object \<Rightarrow>
               if \<not> py_truthy object_name \<or> \<not> py_truthy object_type
                  \<or> \<not> dict_truthy last_object then
                 ([UtterTemplate ''utter_ask_rephrase''], Inr [SlotSet SLOT_MENTION PNone])
               else
                 (case get_object kb object_type object_name of
                    Inl e \<Rightarrow> ([], Inl e)
                  | Inr object_of_interest \<Rightarrow>
                      (case document_type_of kb object_type of
                         Inl e \<Rightarrow> ([], Inl e)
                       | Inr dt \<Rightarrow>
                           (case to_string dt object_of_interest of
                              Inl e \<Rightarrow> ([], Inl e)
                            | Inr obj_repr \<Rightarrow>
                                (case document_type_of kb last_object_type of
                                   Inl e \<Rightarrow> ([], Inl e)
                                 | Inr last_dt \<Rightarrow>
                                     (case to_string last_dt last_object of
                                        Inl e \<Rightarrow> ([], Inl e)
                                      | Inr last_obj_repr \<Rightarrow>
                                          ([UtterText (obj_repr @ '' is the ''
                                              @ py_str object_type @ '' for ''
                                              @ py_str last_object_type @ '' ''
                                              @ last_obj_repr @ ''.'')],
                                           Inr [SlotSet SLOT_OBJECT_TYPE last_object_type,
                                                SlotSet SLOT_MENTION PNone,
                                                SlotSet SLOT_ATTRIBUTE PNone,
                                                SlotSet SLOT_LAST_OBJECT object_name,
                                                SlotSet SLOT_LAST_OBJECT_TYPE last_object_type,
                                                SlotSet SLOT_LIMIT PNone]))))))))"

text \<open>The conditions \<open>run\<close> computes from the slots.\<close>

definition has_mention :: "Tracker \<Rightarrow> bool" where
  "has_mention tracker = (get_slot tracker SLOT_MENTION \<noteq> PNone)"

definition new_request :: "Tracker \<Rightarrow> bool" where
  "new_request tracker =
     (\<not> py_eq (get_slot tracker SLOT_OBJECT_TYPE) (get_slot tracker SLOT_LAST_OBJECT_TYPE))"

definition run ::
  "ElasticsearchKnowledgeBase \<Rightarrow> rasa_sdk \<Rightarrow> Tracker \<Rightarrow> event list outcome" where
  "run kb sdk tracker =
     (let object_type = get_slot tracker SLOT_OBJECT_TYPE;
          last_object_type = get_slot tracker SLOT_LAST_OBJECT_TYPE;
          attribute = get_slot tracker SLOT_ATTRIBUTE
      in if \<not> py_truthy object_type then
           ([UtterTemplate ''utter_ask_rephrase''], Inr [])
         else if py_truthy last_object_type \<and> new_request tracker \<and> has_mention tracker then
           query_join_objects kb sdk object_type last_object_type tracker
         else if \<not> py_truthy attribute then
           query_objects kb object_type tracker
         else if py_truthy attribute then
           query_attribute sdk object_type attribute tracker
         else
           ([UtterTemplate ''utter_ask_rephrase''], Inr []))"

text \<open>The branch of \<open>run\<close> a turn takes: the same chain of tests, naming the branch.\<close>

datatype mode = NoObjectType | JoinMode | ListingMode | AttributeMode | NoMode

definition run_mode :: "Tracker \<Rightarrow> mode" where
  "run_mode tracker =
     (let object_type = get_slot tracker SLOT_OBJECT_TYPE;
          last_object_type = get_slot tracker SLOT_LAST_OBJECT_TYPE;
          attribute = get_slot tracker SLOT_ATTRIBUTE
      in if \<not> py_truthy object_type then NoObjectType
         else if py_truthy last_object_type \<and> new_request tracker \<and> has_mention tracker then
           JoinMode
         else if \<not> py_truthy attribute then ListingMode
         else if py_truthy attribute then AttributeMode
         else NoMode)"

section \<open>Example turns\<close>

text \<open>A store with one movie, its rating under the same identifier, and two books.
  The movie's title carries square brackets. A lookup of any other identifier raises
  \<open>NotFoundError\<close>, as the client of the elasticsearch package does.\<close>

definition movie_hit :: hit where
  "movie_hit =
     \<lparr>hit_source = [(''title'', PStr ''Sci-Fi [2020]''), (''publication_year'', PInt 2020)],
      hit_id = PStr ''tt1''\<rparr>"

definition rating_hit :: hit where
  "rating_hit =
     \<lparr>hit_source = [(''mean_rating'', PInt 8), (''total_votes'', PInt 1200)],
      hit_id = PStr ''tt1''\<rparr>"

definition dune_hit :: hit where
  "dune_hit =
     \<lparr>hit_source = [(''title'', PStr ''Dune''), (''publication_year'', PInt 1965)],
      hit_id = PStr ''b1''\<rparr>"

definition emma_hit :: hit where
  "emma_hit =
     \<lparr>hit_source = [(''title'', PStr ''Emma''), (''publication_year'', PInt 1815)],
      hit_id = PStr ''b2''\<rparr>"

definition demo_client :: es_client where
  "demo_client =
     \<lparr>es_search = (\<lambda>idx body.
         if idx = ''movie'' then Inr [movie_hit]
         else if idx = ''book'' then Inr [dune_hit, emma_hit]
         else Inr []),
      es_get = (\<lambda>idx i.
         if idx = ''movie'' \<and> i = PStr ''tt1'' then Inr (Some movie_hit)
         else if idx = ''rating'' \<and> i = PStr ''tt1'' then Inr (Some rating_hit)
         else Inl NotFoundError)\<rparr>"

text \<open>The same store without the rating: the lookup of \<open>tt1\<close> under \<open>rating\<close>
  finds no document and raises.\<close>

definition unrated_client :: es_client where
  "unrated_client =
     \<lparr>es_search = (\<lambda>idx body. if idx = ''movie'' then Inr [movie_hit] else Inr []),
      es_get = (\<lambda>idx i.
         if idx = ''movie'' \<and> i = PStr ''tt1'' then Inr (Some movie_hit)
         else Inl NotFoundError)\<rparr>"

text \<open>A client of another kind, for the branch \<open>else: return None\<close> of
  \<open>get_object\<close>: it answers a document the index does not hold with an answer that
  is false, and raises nothing. The store is the one without the rating.\<close>

definition silent_client :: es_client where
  "silent_client =
     \<lparr>es_search = (\<lambda>idx body. if idx = ''movie'' then Inr [movie_hit] else Inr []),
      es_get = (\<lambda>idx i.
         if idx = ''movie'' \<and> i = PStr ''tt1'' then Inr (Some movie_hit) else Inr None)\<rparr>"

text \<open>A store that cannot be reached: every call raises.\<close>

definition down_client :: es_client where
  "down_client =
     \<lparr>es_search = (\<lambda>idx body. Inl (StoreFault ''ConnectionError'')),
      es_get = (\<lambda>idx i. Inl (StoreFault ''ConnectionError''))\<rparr>"

text \<open>A stand-in for the inherited methods: the name of the mentioned object is the
  last object, and the attribute query says nothing.\<close>

definition demo_sdk :: rasa_sdk where
  "demo_sdk =
     \<lparr>get_object_name = (\<lambda>tracker. get_slot tracker SLOT_LAST_OBJECT),
      query_attribute = (\<lambda>object_type attribute tracker. ([], Inr []))\<rparr>"

text \<open>"What is the rating for that?", after a movie was listed.\<close>

definition join_tracker :: Tracker where
  "join_tracker =
     \<lparr>slots = [(''object_type'', PStr ''rating''),
               (''knowledge_base_last_object_type'', PStr ''movie''),
               (''mention'', PStr ''LAST''),
               (''knowledge_base_last_object'', PStr ''tt1''),
               (''attribute'', PNone)],
      latest_entities = []\<rparr>"

text \<open>"What movies do you know?" and "What books do you know?", with no filters.\<close>

definition listing_tracker :: Tracker where
  "listing_tracker =
     \<lparr>slots = [(''object_type'', PStr ''movie''),
               (''knowledge_base_last_object_type'', PNone),
               (''mention'', PNone),
               (''attribute'', PNone)],
      latest_entities = []\<rparr>"

definition books_tracker :: Tracker where
  "books_tracker =
     \<lparr>slots = [(''object_type'', PStr ''book''),
               (''knowledge_base_last_object_type'', PNone),
               (''mention'', PNone),
               (''attribute'', PNone)],
      latest_entities = []\<rparr>"

text \<open>A turn with a mention and a previous type, but no current object type.\<close>

definition typeless_tracker :: Tracker where
  "typeless_tracker =
     \<lparr>slots = [(''object_type'', PNone),
               (''knowledge_base_last_object_type'', PStr ''movie''),
               (''mention'', PStr ''LAST'')],
      latest_entities = []\<rparr>"

text \<open>A turn whose current object type is the empty text.\<close>

definition empty_type_tracker :: Tracker where
  "empty_type_tracker =
     \<lparr>slots = [(''object_type'', PStr []),
               (''knowledge_base_last_object_type'', PStr ''movie''),
               (''mention'', PStr ''LAST'')],
      latest_entities = []\<rparr>"

text \<open>"Books from 1965": the slot of the range attribute is set, and the entity of
  the latest message carries no role.\<close>

definition year_tracker :: Tracker where
  "year_tracker =
     \<lparr>slots = [(''object_type'', PStr ''book''),
               (''publication_year'', PStr ''1965'')],
      latest_entities =
        [\<lparr>e_entity = ''publication_year'', e_value = PStr ''1965'', e_role = None\<rparr>]\<rparr>"

text \<open>The normalized movie of the example store.\<close>

definition movie_obj :: pydict where
  "movie_obj =
     [(''title'', PStr ''Sci-Fi [2020]''), (''publication_year'', PInt 2020),
      (''genres'', PNone), (''summary'', PNone), (''actors'', PNone),
      (''director'', PNone), (''name'', PStr ''Sci-Fi [2020] from 2020''),
      (''id'', PStr ''tt1'')]"

section \<open>Facts used throughout\<close>

lemmas slot_names =
  SLOT_MENTION_def SLOT_OBJECT_TYPE_def SLOT_ATTRIBUTE_def SLOT_LISTED_OBJECTS_def
  SLOT_LAST_OBJECT_def SLOT_LAST_OBJECT_TYPE_def SLOT_LIMIT_def

lemmas storage_defs =
  get_object_def get_objects_def to_kb_obj_def document_type_of_def
  get_attributes_of_object_def search_query_def filter_query_def get_field_def
  generate_match_query_def generate_match_phrase_query_def generate_range_query_def

lemmas registry_defs =
  knowledge_base_def BookDocumentType_def MovieDocumentType_def RatingDocumentType_def
  title_from_year_def rating_out_of_10_def str_int_def digits.simps

lemmas action_defs =
  run_def run_mode_def new_request_def has_mention_def query_join_objects_def
  query_objects_def utter_objects_def attributes_repr_def attribute_repr_def
  limit_arg_def get_slot_def attr_slot_def entity_roles_def

lemmas example_defs =
  movie_hit_def rating_hit_def dune_hit_def emma_hit_def demo_client_def
  unrated_client_def silent_client_def down_client_def demo_sdk_def join_tracker_def
  listing_tracker_def
  books_tracker_def typeless_tracker_def empty_type_tracker_def year_tracker_def
  movie_obj_def

text \<open>Only text equals text: \<open>role == 'eq'\<close> holds for the string \<open>eq\<close> alone.\<close>

lemma py_eq_PStr [simp]: "py_eq r (PStr s) \<longleftrightarrow> r = PStr s"
  by (cases r) auto

text \<open>\<open>run\<close> does what the branch named by \<open>run_mode\<close> does.\<close>

lemma run_by_mode:
  "run kb sdk tracker =
     (case run_mode tracker of
        JoinMode \<Rightarrow> query_join_objects kb sdk (get_slot tracker SLOT_OBJECT_TYPE)
                      (get_slot tracker SLOT_LAST_OBJECT_TYPE) tracker
      | ListingMode \<Rightarrow> query_objects kb (get_slot tracker SLOT_OBJECT_TYPE) tracker
      | AttributeMode \<Rightarrow> query_attribute sdk (get_slot tracker SLOT_OBJECT_TYPE)
                           (get_slot tracker SLOT_ATTRIBUTE) tracker
      | _ \<Rightarrow> ([UtterTemplate ''utter_ask_rephrase''], Inr []))"
  by (simp add: run_def run_mode_def Let_def)

text \<open>The last branch of \<open>run\<close> is dead: a slot is either true or false.\<close>

lemma run_mode_not_NoMode: "run_mode tracker \<noteq> NoMode"
  by (simp add: run_mode_def Let_def)

lemma collect_Inr:
  "collect f xs = Inr ys \<Longrightarrow> y \<in> set ys \<Longrightarrow> \<exists>x\<in>set xs. f x = Inr y"
  by (induction xs arbitrary: ys) (auto split: sum.splits)

lemma collect_member:
  "collect f xs = Inr ys \<Longrightarrow> x \<in> set xs \<Longrightarrow> \<exists>y\<in>set ys. f x = Inr y"
  by (induction xs arbitrary: ys) (auto split: sum.splits)

lemma reset_attribute_slots_None:
  "SlotSet k v \<in> set (reset_attribute_slots tracker attrs) \<Longrightarrow> v = PNone"
  by (induction attrs) (auto split: if_splits)

section \<open>Mode selection\<close>

text \<open>
  A turn can meet all three preconditions of the join mode and still not be a join:
  with no current object type, a previous type \<open>movie\<close> and a mention, the previous
  type is set, the current type (\<open>None\<close>) differs from it and the mention is set, yet
  \<open>run\<close> asks to rephrase and changes nothing.
\<close>

theorem join_preconditions_without_object_type:
  "py_truthy (get_slot typeless_tracker SLOT_LAST_OBJECT_TYPE)
   \<and> \<not> py_eq (get_slot typeless_tracker SLOT_OBJECT_TYPE)
            (get_slot typeless_tracker SLOT_LAST_OBJECT_TYPE)
   \<and> get_slot typeless_tracker SLOT_MENTION \<noteq> PNone
   \<and> run_mode typeless_tracker \<noteq> JoinMode
   \<and> run (knowledge_base demo_client) demo_sdk typeless_tracker
       = ([UtterTemplate ''utter_ask_rephrase''], Inr [])"
  by (simp add: run_def run_mode_def new_request_def has_mention_def get_slot_def
      typeless_tracker_def slot_names)

text \<open>
  Claim C1, amended. A type slot is set when its value is true in a Python test
  (neither \<open>None\<close> nor empty); the mention slot is set when it is not \<open>None\<close>.
  For every turn whose current object type is set, the join mode is selected if and
  only if the last-object-type slot is set, the current object type differs from it and
  the mention slot is set; a turn that is not a join is a listing when the attribute
  slot is not set and an attribute lookup when it is; and \<open>run\<close> returns what the
  method of the selected mode returns. A turn whose current object type is not set is
  never a join, whatever the other slots hold: \<open>run\<close> dispatches the clarification
  request and returns the empty state delta.
\<close>

theorem join_mode_selection:
  "(run_mode tracker = JoinMode \<longleftrightarrow>
      py_truthy (get_slot tracker SLOT_OBJECT_TYPE)
      \<and> py_truthy (get_slot tracker SLOT_LAST_OBJECT_TYPE)
      \<and> \<not> py_eq (get_slot tracker SLOT_OBJECT_TYPE)
               (get_slot tracker SLOT_LAST_OBJECT_TYPE)
      \<and> get_slot tracker SLOT_MENTION \<noteq> PNone)
   \<and> (\<not> py_truthy (get_slot tracker SLOT_OBJECT_TYPE) \<longrightarrow>
        run_mode tracker = NoObjectType
        \<and> run kb sdk tracker = ([UtterTemplate ''utter_ask_rephrase''], Inr []))
   \<and> (py_truthy (get_slot tracker SLOT_OBJECT_TYPE) \<longrightarrow>
        (run_mode tracker = JoinMode \<longleftrightarrow>
           py_truthy (get_slot tracker SLOT_LAST_OBJECT_TYPE)
           \<and> \<not> py_eq (get_slot tracker SLOT_OBJECT_TYPE)
                    (get_slot tracker SLOT_LAST_OBJECT_TYPE)
           \<and> get_slot tracker SLOT_MENTION \<noteq> PNone)
        \<and> (run_mode tracker \<noteq> JoinMode \<longrightarrow>
             run_mode tracker =
               (if py_truthy (get_slot tracker SLOT_ATTRIBUTE) then AttributeMode
                else ListingMode))
        \<and> (run_mode tracker = JoinMode \<longrightarrow>
             run kb sdk tracker =
               query_join_objects kb sdk (get_slot tracker SLOT_OBJECT_TYPE)
                 (get_slot tracker SLOT_LAST_OBJECT_TYPE) tracker)
        \<and> (run_mode tracker = ListingMode \<longrightarrow>
             run kb sdk tracker =
               query_objects kb (get_slot tracker SLOT_OBJECT_TYPE) tracker)
        \<and> (run_mode tracker = AttributeMode \<longrightarrow>
             run kb sdk tracker =
               query_attribute sdk (get_slot tracker SLOT_OBJECT_TYPE)
                 (get_slot tracker SLOT_ATTRIBUTE) tracker))"
  by (simp add: run_def run_mode_def new_request_def has_mention_def Let_def)

text \<open>The join turn of the examples is a join and the listing turn (no mention, no
  previous type) is a listing, each returning what its method returns; the turn with no
  current object type gets the clarification request. An empty object type is not set
  either: with a previous type and a mention it is no join.\<close>

theorem join_mode_selection_witness:
  "py_truthy (get_slot join_tracker SLOT_OBJECT_TYPE)
   \<and> run_mode join_tracker = JoinMode
   \<and> run (knowledge_base demo_client) demo_sdk join_tracker
       = query_join_objects (knowledge_base demo_client) demo_sdk (PStr ''rating'')
           (PStr ''movie'') join_tracker
   \<and> py_truthy (get_slot listing_tracker SLOT_OBJECT_TYPE)
   \<and> run_mode listing_tracker = ListingMode
   \<and> run (knowledge_base demo_client) demo_sdk listing_tracker
       = query_objects (knowledge_base demo_client) (PStr ''movie'') listing_tracker
   \<and> \<not> py_truthy (get_slot typeless_tracker SLOT_OBJECT_TYPE)
   \<and> run_mode typeless_tracker = NoObjectType
   \<and> run (knowledge_base demo_client) demo_sdk typeless_tracker
       = ([UtterTemplate ''utter_ask_rephrase''], Inr [])
   \<and> \<not> py_truthy (get_slot empty_type_tracker SLOT_OBJECT_TYPE)
   \<and> run_mode empty_type_tracker = NoObjectType
   \<and> run (knowledge_base demo_client) demo_sdk empty_type_tracker
       = ([UtterTemplate ''utter_ask_rephrase''], Inr [])"
proof -
  let ?kb = "knowledge_base demo_client"
  have j: "get_slot join_tracker SLOT_OBJECT_TYPE = PStr ''rating''"
    "get_slot join_tracker SLOT_LAST_OBJECT_TYPE = PStr ''movie''"
    "get_slot join_tracker SLOT_MENTION = PStr ''LAST''"
    by (simp_all add: get_slot_def join_tracker_def slot_names)
  have l: "get_slot listing_tracker SLOT_OBJECT_TYPE = PStr ''movie''"
    "get_slot listing_tracker SLOT_LAST_OBJECT_TYPE = PNone"
    "get_slot listing_tracker SLOT_ATTRIBUTE = PNone"
    by (simp_all add: get_slot_def listing_tracker_def slot_names)
  have t: "get_slot typeless_tracker SLOT_OBJECT_TYPE = PNone"
    by (simp add: get_slot_def typeless_tracker_def slot_names)
  have e: "get_slot empty_type_tracker SLOT_OBJECT_TYPE = PStr []"
    by (simp add: get_slot_def empty_type_tracker_def slot_names)
  from join_mode_selection [of join_tracker ?kb demo_sdk] j
  have "run_mode join_tracker = JoinMode
        \<and> run ?kb demo_sdk join_tracker
            = query_join_objects ?kb demo_sdk (PStr ''rating'') (PStr ''movie'') join_tracker"
    by simp
  moreover from join_mode_selection [of listing_tracker ?kb demo_sdk] l
  have "run_mode listing_tracker = ListingMode
        \<and> run ?kb demo_sdk listing_tracker
            = query_objects ?kb (PStr ''movie'') listing_tracker"
    by simp
  moreover from join_mode_selection [of typeless_tracker ?kb demo_sdk] t
  have "run_mode typeless_tracker = NoObjectType
        \<and> run ?kb demo_sdk typeless_tracker = ([UtterTemplate ''utter_ask_rephrase''], Inr [])"
    by simp
  moreover from join_mode_selection [of empty_type_tracker ?kb demo_sdk] e
  have "run_mode empty_type_tracker = NoObjectType
        \<and> run ?kb demo_sdk empty_type_tracker
            = ([UtterTemplate ''utter_ask_rephrase''], Inr [])"
    by simp
  ultimately show ?thesis using j l t e by simp
qed

section \<open>The join query\<close>

text \<open>Where the first lookup returns, two of the three failures end in the
  clarification request and clear the mention only: a name that does not resolve, and a
  lookup under the previous type that returns absent. The lookup is made before the
  name is tested, so what the client raises in it escapes in both cases (see
  \<open>join_first_lookup_fault\<close> below).\<close>

lemma join_unresolved_name:
  assumes "\<not> py_truthy (get_object_name sdk tracker)"
      and "get_attributes_of_object kb object_type = Inr attrs"
      and "get_object kb last_object_type (get_object_name sdk tracker) = Inr last_object"
  shows "query_join_objects kb sdk object_type last_object_type tracker
           = ([UtterTemplate ''utter_ask_rephrase''], Inr [SlotSet SLOT_MENTION PNone])"
  using assms by (simp add: query_join_objects_def)

lemma join_previous_lookup_miss:
  assumes "get_attributes_of_object kb object_type = Inr attrs"
      and "get_object kb last_object_type (get_object_name sdk tracker) = Inr None"
  shows "query_join_objects kb sdk object_type last_object_type tracker
           = ([UtterTemplate ''utter_ask_rephrase''], Inr [SlotSet SLOT_MENTION PNone])"
  using assms by (simp add: query_join_objects_def)

text \<open>The registered renderings subscript their argument, so they raise on
  \<open>None\<close>.\<close>

lemma registered_to_string_None:
  "title_from_year None = Inl TypeError" "rating_out_of_10 None = Inl TypeError"
  by (simp_all add: title_from_year_def rating_out_of_10_def)

text \<open>
  Claim C2, at the failing input. The movie \<open>tt1\<close> is found under the previous type
  and no rating \<open>tt1\<close> exists under the current type. The second lookup is neither
  guarded nor is its result checked: the client's \<open>NotFoundError\<close> escapes the turn,
  and with a client that answers the miss without raising, \<open>None\<close> goes to
  \<open>to_string\<close> and the turn ends in a \<open>TypeError\<close>. Either way no message is
  dispatched and no state delta is returned, where the claim has the clarification
  request.
\<close>

theorem join_current_lookup_miss_raises:
  "run_mode join_tracker = JoinMode
   \<and> get_object (knowledge_base unrated_client) (PStr ''movie'') (PStr ''tt1'')
       = Inr (Some movie_obj)
   \<and> get_object (knowledge_base unrated_client) (PStr ''rating'') (PStr ''tt1'')
       = Inl NotFoundError
   \<and> run (knowledge_base unrated_client) demo_sdk join_tracker = ([], Inl NotFoundError)
   \<and> get_object (knowledge_base silent_client) (PStr ''movie'') (PStr ''tt1'')
       = Inr (Some movie_obj)
   \<and> get_object (knowledge_base silent_client) (PStr ''rating'') (PStr ''tt1'') = Inr None
   \<and> run (knowledge_base silent_client) demo_sdk join_tracker = ([], Inl TypeError)"
  by (simp add: action_defs storage_defs registry_defs example_defs slot_names Let_def)

text \<open>
  A successful join does not swap the two object types: the current type was
  \<open>rating\<close> and the previous one \<open>movie\<close>, and the delta sets both the
  object-type slot and the last-object-type slot to \<open>movie\<close>.
\<close>

theorem join_delta_is_not_a_swap:
  "get_slot join_tracker SLOT_OBJECT_TYPE = PStr ''rating''
   \<and> get_slot join_tracker SLOT_LAST_OBJECT_TYPE = PStr ''movie''
   \<and> run (knowledge_base demo_client) demo_sdk join_tracker =
       ([UtterText ''8 out of 10 (1200 votes) is the rating for movie Sci-Fi [2020] from 2020.''],
        Inr [SlotSet SLOT_OBJECT_TYPE (PStr ''movie''), SlotSet SLOT_MENTION PNone,
             SlotSet SLOT_ATTRIBUTE PNone, SlotSet SLOT_LAST_OBJECT (PStr ''tt1''),
             SlotSet SLOT_LAST_OBJECT_TYPE (PStr ''movie''), SlotSet SLOT_LIMIT PNone])"
  by (simp add: action_defs storage_defs registry_defs example_defs slot_names Let_def)

text \<open>
  Claim C3, amended. On a successful join-mode turn (one that renders the join
  response) the state delta makes the previous object type the current one and keeps it
  as the last object type, clears the mention, attribute and limit slots, and sets
  last-object to the resolved name.
\<close>

theorem join_success_delta:
  assumes "query_join_objects kb sdk object_type last_object_type tracker
             = ([UtterText rendered], Inr delta)"
  shows "delta = [SlotSet SLOT_OBJECT_TYPE last_object_type,
                  SlotSet SLOT_MENTION PNone,
                  SlotSet SLOT_ATTRIBUTE PNone,
                  SlotSet SLOT_LAST_OBJECT (get_object_name sdk tracker),
                  SlotSet SLOT_LAST_OBJECT_TYPE last_object_type,
                  SlotSet SLOT_LIMIT PNone]"
  using assms
  by (auto simp add: query_join_objects_def Let_def split: sum.splits if_splits)

text \<open>The join turn of the examples succeeds, with the delta of the theorem.\<close>

theorem join_success_delta_witness:
  "query_join_objects (knowledge_base demo_client) demo_sdk (PStr ''rating'') (PStr ''movie'')
      join_tracker
     = ([UtterText ''8 out of 10 (1200 votes) is the rating for movie Sci-Fi [2020] from 2020.''],
        Inr [SlotSet SLOT_OBJECT_TYPE (PStr ''movie''), SlotSet SLOT_MENTION PNone,
             SlotSet SLOT_ATTRIBUTE PNone, SlotSet SLOT_LAST_OBJECT (PStr ''tt1''),
             SlotSet SLOT_LAST_OBJECT_TYPE (PStr ''movie''), SlotSet SLOT_LIMIT PNone])"
proof -
  obtain rendered delta where
    q: "query_join_objects (knowledge_base demo_client) demo_sdk (PStr ''rating'')
          (PStr ''movie'') join_tracker = ([UtterText rendered], Inr delta)"
    and r: "rendered
              = ''8 out of 10 (1200 votes) is the rating for movie Sci-Fi [2020] from 2020.''"
    by (simp add: action_defs storage_defs registry_defs example_defs slot_names Let_def)
  have "get_object_name demo_sdk join_tracker = PStr ''tt1''"
    by (simp add: example_defs get_slot_def slot_names)
  with join_success_delta [OF q] q r show ?thesis by simp
qed

section \<open>The range strategy\<close>



text \<open>A filter of \<open>get_attribute_slots\<close> for every attribute whose slot holds a
  value, with the role of the first matching entity that has one.\<close>

lemma entity_roles_empty:
  assumes "\<forall>e\<in>set entities. e_entity e = attr \<and> py_eq (e_value e) v \<longrightarrow> e_role e = None"
  shows "entity_roles entities attr v = []"
  using assms by (induction entities) (auto simp add: entity_roles_def List.map_filter_simps)

lemma get_attribute_slots_member:
  assumes "attr \<in> set object_attributes" and "attr_slot tracker attr \<noteq> PNone"
  shows "\<lparr>f_name = attr, f_value = attr_slot tracker attr,
          f_role = (case entity_roles (latest_entities tracker) attr (attr_slot tracker attr)
                    of [] \<Rightarrow> PNone | r # _ \<Rightarrow> r)\<rparr>
         \<in> set (get_attribute_slots tracker object_attributes)"
  using assms by (induction object_attributes) (auto simp add: Let_def)

text \<open>
  Claim C10. When the slot of a range-declared attribute holds a value and no matching
  entity of the latest message carries a role, the filter has the role \<open>None\<close>, its
  fragment is the range fragment keyed by \<open>None\<close>, that fragment is in the query
  \<open>get_objects\<close> sends, and a range attribute yields the plain match for the role
  \<open>eq\<close> only.
\<close>

theorem null_role_range_fragment:
  assumes "attr \<in> set object_attributes"
      and "attr_slot tracker attr = v" and "v \<noteq> PNone"
      and "\<forall>e\<in>set (latest_entities tracker).
             e_entity e = attr \<and> py_eq (e_value e) v \<longrightarrow> e_role e = None"
      and "map_of (attributes dt) attr = Some (RangeAttribute n)"
      and "search_query dt (get_attribute_slots tracker object_attributes) lim = Inr body"
  shows "\<lparr>f_name = attr, f_value = v, f_role = PNone\<rparr>
           \<in> set (get_attribute_slots tracker object_attributes)
       \<and> filter_query dt \<lparr>f_name = attr, f_value = v, f_role = PNone\<rparr> = Inr (Range n PNone v)
       \<and> Range n PNone v \<in> set (body_must body)
       \<and> (generate_query (RangeAttribute n) v role = Match n v \<longleftrightarrow> role = PStr ''eq'')"
proof -
  let ?f = "\<lparr>f_name = attr, f_value = v, f_role = PNone\<rparr>"
  have roles: "entity_roles (latest_entities tracker) attr v = []"
    using assms(4) by (rule entity_roles_empty)
  have mem: "?f \<in> set (get_attribute_slots tracker object_attributes)"
    using get_attribute_slots_member [of attr object_attributes tracker] assms(1-3) roles
    by simp
  have frag: "filter_query dt ?f = Inr (Range n PNone v)"
    using assms(5) by (simp add: filter_query_def generate_range_query_def)
  from assms(6) obtain queries where
    c: "collect (filter_query dt) (get_attribute_slots tracker object_attributes) = Inr queries"
    and b: "body_must body = queries"
    by (auto simp add: search_query_def split: sum.splits)
  from collect_member [OF c mem] frag b have "Range n PNone v \<in> set (body_must body)"
    by auto
  moreover have "generate_query (RangeAttribute n) v role = Match n v \<longleftrightarrow> role = PStr ''eq''"
    by (simp add: generate_match_query_def generate_range_query_def)
  ultimately show ?thesis using mem frag by simp
qed

text \<open>"Books from 1965": the year's entity has no role, and the query for the books
  holds the range fragment keyed by \<open>None\<close>.\<close>

theorem null_role_range_fragment_witness:
  "''publication_year'' \<in> set (map fst (attributes (BookDocumentType ''book'')))
   \<and> attr_slot year_tracker ''publication_year'' = PStr ''1965''
   \<and> entity_roles (latest_entities year_tracker) ''publication_year'' (PStr ''1965'') = []
   \<and> map_of (attributes (BookDocumentType ''book'')) ''publication_year''
       = Some (RangeAttribute ''publication_year'')
   \<and> search_query (BookDocumentType ''book'')
        (get_attribute_slots year_tracker (map fst (attributes (BookDocumentType ''book''))))
        None
       = Inr \<lparr>body_size = 5,
              body_must = [Range ''publication_year'' PNone (PStr ''1965'')]\<rparr>
   \<and> Range ''publication_year'' PNone (PStr ''1965'')
       \<in> set (body_must \<lparr>body_size = 5,
                 body_must = [Range ''publication_year'' PNone (PStr ''1965'')]\<rparr>)"
proof -
  let ?dt = "BookDocumentType ''book''"
  let ?body = "\<lparr>body_size = 5, body_must = [Range ''publication_year'' PNone (PStr ''1965'')]\<rparr>"
  have 1: "''publication_year'' \<in> set (map fst (attributes ?dt))"
    by (simp add: BookDocumentType_def)
  have 2: "attr_slot year_tracker ''publication_year'' = PStr ''1965''"
    by (simp add: attr_slot_def get_slot_def year_tracker_def)
  have 3: "PStr ''1965'' \<noteq> PNone" by simp
  have 4: "\<forall>e\<in>set (latest_entities year_tracker).
             e_entity e = ''publication_year'' \<and> py_eq (e_value e) (PStr ''1965'')
               \<longrightarrow> e_role e = None"
    by (simp add: year_tracker_def)
  have 5: "map_of (attributes ?dt) ''publication_year''
             = Some (RangeAttribute ''publication_year'')"
    by (simp add: BookDocumentType_def)
  have 6: "search_query ?dt (get_attribute_slots year_tracker (map fst (attributes ?dt))) None
             = Inr ?body"
    by (simp add: search_query_def filter_query_def BookDocumentType_def attr_slot_def
        get_slot_def entity_roles_def year_tracker_def generate_range_query_def
        List.map_filter_simps)
  have 7: "entity_roles (latest_entities year_tracker) ''publication_year'' (PStr ''1965'') = []"
    by (simp add: entity_roles_def year_tracker_def List.map_filter_simps)
  from null_role_range_fragment [OF 1 2 3 4 5 6] 1 2 5 6 7 show ?thesis by simp
qed

section \<open>The knowledge base\<close>

text \<open>The keys of a normalized object: the declared attributes, \<open>name\<close> and
  \<open>id\<close>.\<close>

lemma keys_of_fields:
  "fst ` set (map (\<lambda>(n, a). (n, f a)) xs) = fst ` set xs"
  by (induction xs) auto

lemma to_kb_obj_keys:
  assumes "to_kb_obj kb obj object_type = Inr kb_obj"
      and "dict_find (document_types kb) object_type = Inr (Some dt)"
  shows "fst ` set kb_obj = {''id'', ''name''} \<union> fst ` set (attributes dt)"
proof -
  from assms obtain pretty where
    "kb_obj = AList.update ''id'' (hit_id obj)
                (AList.update ''name'' (PStr pretty)
                   (map (\<lambda>(n, attribute). (n, get_field attribute (hit_source obj)))
                      (attributes dt)))"
    by (auto simp add: to_kb_obj_def document_type_of_def Let_def split: sum.splits)
  then have "fst ` set kb_obj = {''id''} \<union> ({''name''} \<union> fst ` set (attributes dt))"
    by (simp only: dom_update keys_of_fields)
  then show ?thesis by blast
qed

text \<open>
  Claim C9. For a known object type, every normalized object that \<open>get_object\<close> or
  \<open>get_objects\<close> returns has the keys \<open>name\<close> and \<open>id\<close> and an entry for every
  attribute declared on the type (so for every declared attribute that the raw document
  holds).
\<close>

theorem normalized_object_keys:
  assumes "dict_find (document_types kb) object_type = Inr (Some dt)"
  shows "(get_object kb object_type ident = Inr (Some obj) \<longrightarrow>
            ''name'' \<in> fst ` set obj \<and> ''id'' \<in> fst ` set obj
            \<and> fst ` set (attributes dt) \<subseteq> fst ` set obj)
       \<and> (get_objects kb object_type attrs lim = Inr objs \<longrightarrow>
            (\<forall>obj\<in>set objs.
               ''name'' \<in> fst ` set obj \<and> ''id'' \<in> fst ` set obj
               \<and> fst ` set (attributes dt) \<subseteq> fst ` set obj))"
proof -
  have one: "fst ` set o1 = {''id'', ''name''} \<union> fst ` set (attributes dt)"
    if "get_object kb object_type ident = Inr (Some o1)" for o1
  proof -
    from that assms obtain h where "to_kb_obj kb h object_type = Inr o1"
      by (auto simp add: get_object_def split: sum.splits option.splits)
    then show ?thesis using assms by (rule to_kb_obj_keys)
  qed
  have many: "fst ` set o2 = {''id'', ''name''} \<union> fst ` set (attributes dt)"
    if "get_objects kb object_type attrs lim = Inr objs" and "o2 \<in> set objs" for o2
  proof -
    from that assms obtain h where "to_kb_obj kb h object_type = Inr o2"
      by (auto simp add: get_objects_def split: sum.splits dest: collect_Inr)
    then show ?thesis using assms by (rule to_kb_obj_keys)
  qed
  show ?thesis
  proof (intro conjI impI ballI)
    assume g: "get_object kb object_type ident = Inr (Some obj)"
    show "''name'' \<in> fst ` set obj" "''id'' \<in> fst ` set obj"
      "fst ` set (attributes dt) \<subseteq> fst ` set obj"
      unfolding one [OF g] by blast+
  next
    fix o2 assume g: "get_objects kb object_type attrs lim = Inr objs" "o2 \<in> set objs"
    show "''name'' \<in> fst ` set o2" "''id'' \<in> fst ` set o2"
      "fst ` set (attributes dt) \<subseteq> fst ` set o2"
      unfolding many [OF g] by blast+
  qed
qed

text \<open>The movie of the example store, looked up and listed.\<close>

theorem normalized_object_keys_witness:
  "dict_find (document_types (knowledge_base demo_client)) (PStr ''movie'')
     = Inr (Some (MovieDocumentType ''movie''))
   \<and> get_object (knowledge_base demo_client) (PStr ''movie'') (PStr ''tt1'')
       = Inr (Some movie_obj)
   \<and> get_objects (knowledge_base demo_client) (PStr ''movie'') [] None = Inr [movie_obj]
   \<and> ''name'' \<in> fst ` set movie_obj \<and> ''id'' \<in> fst ` set movie_obj
   \<and> fst ` set (attributes (MovieDocumentType ''movie'')) \<subseteq> fst ` set movie_obj"
proof -
  have 1: "dict_find (document_types (knowledge_base demo_client)) (PStr ''movie'')
             = Inr (Some (MovieDocumentType ''movie''))"
    by (simp add: knowledge_base_def)
  have 2: "get_object (knowledge_base demo_client) (PStr ''movie'') (PStr ''tt1'')
             = Inr (Some movie_obj)"
    by (simp add: storage_defs registry_defs example_defs)
  have 3: "get_objects (knowledge_base demo_client) (PStr ''movie'') [] None = Inr [movie_obj]"
    by (simp add: storage_defs registry_defs example_defs)
  from normalized_object_keys [OF 1, where ident = "PStr ''tt1''" and obj = movie_obj
         and attrs = "[]" and lim = None and objs = "[movie_obj]"]
    1 2 3
  show ?thesis by simp
qed

text \<open>What \<open>get_object\<close> returns: absent for an unknown type name, absent for an
  answer of the client that is false, and whatever the client raises.\<close>

lemma get_object_unknown_type:
  "map_of (document_types kb) type_name = None \<Longrightarrow>
     get_object kb (PStr type_name) ident = Inr None"
  by (simp add: get_object_def)

lemma get_object_false_answer:
  "map_of (document_types kb) type_name = Some dt \<Longrightarrow>
   es_get (es kb) (index dt) ident = Inr None \<Longrightarrow>
     get_object kb (PStr type_name) ident = Inr None"
  by (simp add: get_object_def)

lemma get_object_client_fault:
  "map_of (document_types kb) type_name = Some dt \<Longrightarrow>
   es_get (es kb) (index dt) ident = Inl fault \<Longrightarrow>
     get_object kb (PStr type_name) ident = Inl fault"
  by (simp add: get_object_def)

text \<open>
  Claim C7, at the failing input. The type \<open>movie\<close> is known and the store has no
  movie \<open>tt9\<close>: the client raises \<open>NotFoundError\<close>, \<open>get_object\<close> calls it
  unguarded, and the lookup ends in that fault, not in absent. (The unknown type
  \<open>song\<close> does give absent, and the movie \<open>tt1\<close> its normalized object.)
\<close>

theorem get_object_miss_raises:
  "map_of (document_types (knowledge_base demo_client)) ''movie''
     = Some (MovieDocumentType ''movie'')
   \<and> es_get (es (knowledge_base demo_client)) (index (MovieDocumentType ''movie''))
        (PStr ''tt9'') = Inl NotFoundError
   \<and> get_object (knowledge_base demo_client) (PStr ''movie'') (PStr ''tt9'')
       = Inl NotFoundError
   \<and> get_object (knowledge_base demo_client) (PStr ''song'') (PStr ''tt9'') = Inr None
   \<and> get_object (knowledge_base demo_client) (PStr ''movie'') (PStr ''tt1'')
       = Inr (Some movie_obj)"
  by (simp add: storage_defs registry_defs example_defs)

section \<open>The listing query\<close>

text \<open>
  Claim C5. In listing mode, when the query returns exactly one object the state delta
  sets the last-object slot to that object's key-attribute value, and when it returns
  none or more than one the delta gives the last-object slot no value: every event of
  the delta for that slot, if there is one, carries \<open>None\<close>.
\<close>

theorem listing_last_object:
  assumes "get_attributes_of_object kb object_type = Inr attrs"
      and "limit_arg (get_slot tracker SLOT_LIMIT) = Inr lim"
      and "get_objects kb object_type (get_attribute_slots tracker attrs) lim = Inr objects"
      and "query_objects kb object_type tracker = (msgs, Inr delta)"
  shows "(\<forall>obj. objects = [obj] \<longrightarrow>
            (\<exists>v. map_of obj (key_attribute kb object_type) = Some v
               \<and> delta = [SlotSet SLOT_OBJECT_TYPE object_type,
                          SlotSet SLOT_MENTION PNone,
                          SlotSet SLOT_ATTRIBUTE PNone,
                          SlotSet SLOT_LAST_OBJECT v,
                          SlotSet SLOT_LAST_OBJECT_TYPE object_type,
                          SlotSet SLOT_LISTED_OBJECTS (PList [v]),
                          SlotSet SLOT_LIMIT PNone]
                         @ reset_attribute_slots tracker attrs))
       \<and> (length objects \<noteq> 1 \<longrightarrow>
            (\<forall>v. SlotSet SLOT_LAST_OBJECT v \<in> set delta \<longrightarrow> v = PNone))"
proof (intro conjI allI impI)
  fix obj assume one: "objects = [obj]"
  from assms one show "\<exists>v. map_of obj (key_attribute kb object_type) = Some v
               \<and> delta = [SlotSet SLOT_OBJECT_TYPE object_type,
                          SlotSet SLOT_MENTION PNone,
                          SlotSet SLOT_ATTRIBUTE PNone,
                          SlotSet SLOT_LAST_OBJECT v,
                          SlotSet SLOT_LAST_OBJECT_TYPE object_type,
                          SlotSet SLOT_LISTED_OBJECTS (PList [v]),
                          SlotSet SLOT_LIMIT PNone]
                         @ reset_attribute_slots tracker attrs"
    by (auto simp add: query_objects_def Let_def split: sum.splits prod.splits option.splits)
next
  fix v
  assume n: "length objects \<noteq> 1" and v: "SlotSet SLOT_LAST_OBJECT v \<in> set delta"
  show "v = PNone"
  proof (cases objects)
    case Nil
    with assms have "delta = reset_attribute_slots tracker attrs"
      by (auto simp add: query_objects_def Let_def split: sum.splits prod.splits)
    with v show ?thesis by (auto dest: reset_attribute_slots_None)
  next
    case (Cons obj0 rest)
    with n have "length objects > 1" by (cases rest) auto
    with assms Cons obtain listed where
      "delta = [SlotSet SLOT_OBJECT_TYPE object_type,
                SlotSet SLOT_MENTION PNone,
                SlotSet SLOT_ATTRIBUTE PNone,
                SlotSet SLOT_LAST_OBJECT PNone,
                SlotSet SLOT_LAST_OBJECT_TYPE object_type,
                SlotSet SLOT_LISTED_OBJECTS (PList listed),
                SlotSet SLOT_LIMIT PNone]
               @ reset_attribute_slots tracker attrs"
      by (auto simp add: query_objects_def Let_def split: sum.splits prod.splits)
    with v show ?thesis
      by (auto simp add: slot_names dest: reset_attribute_slots_None)
  qed
qed

text \<open>The movies of the example store are one object, whose identifier becomes the
  last object; the books are two, and no event gives the last object a value.\<close>

theorem listing_last_object_witness:
  "get_attributes_of_object (knowledge_base demo_client) (PStr ''movie'')
     = Inr (map fst (attributes (MovieDocumentType ''movie'')))
   \<and> limit_arg (get_slot listing_tracker SLOT_LIMIT) = Inr None
   \<and> get_objects (knowledge_base demo_client) (PStr ''movie'') [] None = Inr [movie_obj]
   \<and> snd (query_objects (knowledge_base demo_client) (PStr ''movie'') listing_tracker)
       = Inr [SlotSet SLOT_OBJECT_TYPE (PStr ''movie''), SlotSet SLOT_MENTION PNone,
              SlotSet SLOT_ATTRIBUTE PNone, SlotSet SLOT_LAST_OBJECT (PStr ''tt1''),
              SlotSet SLOT_LAST_OBJECT_TYPE (PStr ''movie''),
              SlotSet SLOT_LISTED_OBJECTS (PList [PStr ''tt1'']), SlotSet SLOT_LIMIT PNone]
   \<and> length (projr (get_objects (knowledge_base demo_client) (PStr ''book'') [] None)) = 2
   \<and> SlotSet SLOT_LAST_OBJECT (PStr ''b1'')
       \<notin> set (projr (snd (query_objects (knowledge_base demo_client) (PStr ''book'')
                  books_tracker)))"
proof -
  let ?kb = "knowledge_base demo_client"
  let ?m = "map fst (attributes (MovieDocumentType ''movie''))"
  let ?b = "map fst (attributes (BookDocumentType ''book''))"
  have m1: "get_attributes_of_object ?kb (PStr ''movie'') = Inr ?m"
    by (simp add: get_attributes_of_object_def knowledge_base_def)
  have m2: "limit_arg (get_slot listing_tracker SLOT_LIMIT) = Inr None"
    by (simp add: limit_arg_def get_slot_def listing_tracker_def slot_names)
  have m0: "get_attribute_slots listing_tracker ?m = []"
    by (simp add: MovieDocumentType_def attr_slot_def listing_tracker_def)
  have m3: "get_objects ?kb (PStr ''movie'') (get_attribute_slots listing_tracker ?m) None
              = Inr [movie_obj]"
    unfolding m0 by (simp add: storage_defs registry_defs example_defs)
  obtain msgs delta where
    m4: "query_objects ?kb (PStr ''movie'') listing_tracker = (msgs, Inr delta)"
    by (simp add: action_defs storage_defs registry_defs example_defs slot_names Let_def)
  from listing_last_object [OF m1 m2 m3 m4]
  have "\<exists>v. map_of movie_obj (key_attribute ?kb (PStr ''movie'')) = Some v
          \<and> delta = [SlotSet SLOT_OBJECT_TYPE (PStr ''movie''), SlotSet SLOT_MENTION PNone,
                     SlotSet SLOT_ATTRIBUTE PNone, SlotSet SLOT_LAST_OBJECT v,
                     SlotSet SLOT_LAST_OBJECT_TYPE (PStr ''movie''),
                     SlotSet SLOT_LISTED_OBJECTS (PList [v]), SlotSet SLOT_LIMIT PNone]
                    @ reset_attribute_slots listing_tracker ?m"
    by simp
  moreover have "reset_attribute_slots listing_tracker ?m = []"
    by (simp add: MovieDocumentType_def attr_slot_def listing_tracker_def)
  ultimately have md:
    "delta = [SlotSet SLOT_OBJECT_TYPE (PStr ''movie''), SlotSet SLOT_MENTION PNone,
              SlotSet SLOT_ATTRIBUTE PNone, SlotSet SLOT_LAST_OBJECT (PStr ''tt1''),
              SlotSet SLOT_LAST_OBJECT_TYPE (PStr ''movie''),
              SlotSet SLOT_LISTED_OBJECTS (PList [PStr ''tt1'']), SlotSet SLOT_LIMIT PNone]"
    by (auto simp add: knowledge_base_def movie_obj_def)
  have b1: "get_attributes_of_object ?kb (PStr ''book'') = Inr ?b"
    by (simp add: get_attributes_of_object_def knowledge_base_def)
  have b2: "limit_arg (get_slot books_tracker SLOT_LIMIT) = Inr None"
    by (simp add: limit_arg_def get_slot_def books_tracker_def slot_names)
  have b0: "get_attribute_slots books_tracker ?b = []"
    by (simp add: BookDocumentType_def attr_slot_def books_tracker_def)
  obtain o1 o2 where
    b3: "get_objects ?kb (PStr ''book'') (get_attribute_slots books_tracker ?b) None
           = Inr [o1, o2]"
    unfolding b0 by (simp add: storage_defs registry_defs example_defs)
  obtain bmsgs bdelta where
    b4: "query_objects ?kb (PStr ''book'') books_tracker = (bmsgs, Inr bdelta)"
    by (simp add: action_defs storage_defs registry_defs example_defs slot_names Let_def)
  from listing_last_object [OF b1 b2 b3 b4]
  have "SlotSet SLOT_LAST_OBJECT (PStr ''b1'') \<notin> set bdelta"
    by auto
  with m1 m2 m3 m4 md b3 b4 show ?thesis
    by (simp add: m0 b0)
qed

section \<open>Faults of the store\<close>

text \<open>
  The store cannot be reached during a listing turn: the fault of the search escapes
  \<open>run\<close>, and no clarification is dispatched.
\<close>

theorem store_fault_escapes_run:
  "run_mode listing_tracker = ListingMode
   \<and> es_search down_client ''movie'' \<lparr>body_size = 5, body_must = []\<rparr>
        = Inl (StoreFault ''ConnectionError'')
   \<and> run (knowledge_base down_client) demo_sdk listing_tracker
        = ([], Inl (StoreFault ''ConnectionError''))"
  by (simp add: action_defs storage_defs registry_defs example_defs slot_names Let_def)

lemma listing_search_fault:
  assumes "dict_find (document_types kb) object_type = Inr (Some dt)"
      and "limit_arg (get_slot tracker SLOT_LIMIT) = Inr lim"
      and "search_query dt (get_attribute_slots tracker (map fst (attributes dt))) lim = Inr body"
      and "es_search (es kb) (index dt) body = Inl fault"
  shows "query_objects kb object_type tracker = ([], Inl fault)"
  using assms
  by (simp add: query_objects_def get_attributes_of_object_def get_objects_def Let_def)

lemma join_first_lookup_fault:
  assumes "get_attributes_of_object kb object_type = Inr attrs"
      and "dict_find (document_types kb) last_object_type = Inr (Some last_dt)"
      and "es_get (es kb) (index last_dt) (get_object_name sdk tracker) = Inl fault"
  shows "query_join_objects kb sdk object_type last_object_type tracker = ([], Inl fault)"
  using assms
  by (simp add: query_join_objects_def get_object_def Let_def)

lemma join_second_lookup_fault:
  assumes "dict_find (document_types kb) object_type = Inr (Some dt)"
      and "py_truthy object_type" and "py_truthy (get_object_name sdk tracker)"
      and "get_object kb last_object_type (get_object_name sdk tracker) = Inr (Some last_object)"
      and "last_object \<noteq> []"
      and "es_get (es kb) (index dt) (get_object_name sdk tracker) = Inl fault"
  shows "query_join_objects kb sdk object_type last_object_type tracker = ([], Inl fault)"
  using assms
  by (simp add: query_join_objects_def get_object_def get_attributes_of_object_def Let_def)

text \<open>
  Claim C6, amended. No fault of the store is caught by \<open>run\<close>: when the search of a
  listing turn raises, or the lookup under the previous type or the lookup under the
  current type of a join turn raises, the turn ends with that fault, with no message
  dispatched and no state delta; and what the inherited attribute query raises,
  \<open>run\<close> raises.
\<close>

theorem store_faults_propagate:
  "(run_mode tracker = ListingMode
      \<and> dict_find (document_types kb) (get_slot tracker SLOT_OBJECT_TYPE) = Inr (Some dt)
      \<and> limit_arg (get_slot tracker SLOT_LIMIT) = Inr lim
      \<and> search_query dt (get_attribute_slots tracker (map fst (attributes dt))) lim = Inr body
      \<and> es_search (es kb) (index dt) body = Inl fault
    \<longrightarrow> run kb sdk tracker = ([], Inl fault))
   \<and> (run_mode tracker = JoinMode
      \<and> get_attributes_of_object kb (get_slot tracker SLOT_OBJECT_TYPE) = Inr attrs
      \<and> dict_find (document_types kb) (get_slot tracker SLOT_LAST_OBJECT_TYPE)
           = Inr (Some last_dt)
      \<and> es_get (es kb) (index last_dt) (get_object_name sdk tracker) = Inl fault
    \<longrightarrow> run kb sdk tracker = ([], Inl fault))
   \<and> (run_mode tracker = JoinMode
      \<and> dict_find (document_types kb) (get_slot tracker SLOT_OBJECT_TYPE) = Inr (Some dt)
      \<and> py_truthy (get_object_name sdk tracker)
      \<and> get_object kb (get_slot tracker SLOT_LAST_OBJECT_TYPE) (get_object_name sdk tracker)
           = Inr (Some last_object)
      \<and> last_object \<noteq> []
      \<and> es_get (es kb) (index dt) (get_object_name sdk tracker) = Inl fault
    \<longrightarrow> run kb sdk tracker = ([], Inl fault))
   \<and> (run_mode tracker = AttributeMode
      \<and> query_attribute sdk (get_slot tracker SLOT_OBJECT_TYPE)
           (get_slot tracker SLOT_ATTRIBUTE) tracker = (msgs, Inl fault)
    \<longrightarrow> run kb sdk tracker = (msgs, Inl fault))"
proof (intro conjI impI)
  assume a: "run_mode tracker = ListingMode
      \<and> dict_find (document_types kb) (get_slot tracker SLOT_OBJECT_TYPE) = Inr (Some dt)
      \<and> limit_arg (get_slot tracker SLOT_LIMIT) = Inr lim
      \<and> search_query dt (get_attribute_slots tracker (map fst (attributes dt))) lim = Inr body
      \<and> es_search (es kb) (index dt) body = Inl fault"
  then have "query_objects kb (get_slot tracker SLOT_OBJECT_TYPE) tracker = ([], Inl fault)"
    by (intro listing_search_fault) auto
  with a show "run kb sdk tracker = ([], Inl fault)"
    by (simp add: run_by_mode)
next
  assume a: "run_mode tracker = JoinMode
      \<and> get_attributes_of_object kb (get_slot tracker SLOT_OBJECT_TYPE) = Inr attrs
      \<and> dict_find (document_types kb) (get_slot tracker SLOT_LAST_OBJECT_TYPE)
           = Inr (Some last_dt)
      \<and> es_get (es kb) (index last_dt) (get_object_name sdk tracker) = Inl fault"
  then have "query_join_objects kb sdk (get_slot tracker SLOT_OBJECT_TYPE)
               (get_slot tracker SLOT_LAST_OBJECT_TYPE) tracker = ([], Inl fault)"
    by (intro join_first_lookup_fault) auto
  with a show "run kb sdk tracker = ([], Inl fault)"
    by (simp add: run_by_mode)
next
  assume a: "run_mode tracker = JoinMode
      \<and> dict_find (document_types kb) (get_slot tracker SLOT_OBJECT_TYPE) = Inr (Some dt)
      \<and> py_truthy (get_object_name sdk tracker)
      \<and> get_object kb (get_slot tracker SLOT_LAST_OBJECT_TYPE) (get_object_name sdk tracker)
           = Inr (Some last_object)
      \<and> last_object \<noteq> []
      \<and> es_get (es kb) (index dt) (get_object_name sdk tracker) = Inl fault"
  then have ot: "py_truthy (get_slot tracker SLOT_OBJECT_TYPE)"
    by (auto simp add: run_mode_def Let_def split: if_splits)
  from a ot have "query_join_objects kb sdk (get_slot tracker SLOT_OBJECT_TYPE)
               (get_slot tracker SLOT_LAST_OBJECT_TYPE) tracker = ([], Inl fault)"
    by (intro join_second_lookup_fault) auto
  with a show "run kb sdk tracker = ([], Inl fault)"
    by (simp add: run_by_mode)
next
  assume "run_mode tracker = AttributeMode
      \<and> query_attribute sdk (get_slot tracker SLOT_OBJECT_TYPE)
           (get_slot tracker SLOT_ATTRIBUTE) tracker = (msgs, Inl fault)"
  then show "run kb sdk tracker = (msgs, Inl fault)"
    by (simp add: run_by_mode)
qed

text \<open>The unreachable store, in a listing turn and in a join turn.\<close>

theorem store_faults_propagate_witness:
  "run_mode listing_tracker = ListingMode
   \<and> dict_find (document_types (knowledge_base down_client))
        (get_slot listing_tracker SLOT_OBJECT_TYPE) = Inr (Some (MovieDocumentType ''movie''))
   \<and> limit_arg (get_slot listing_tracker SLOT_LIMIT) = Inr None
   \<and> es_search (es (knowledge_base down_client)) (index (MovieDocumentType ''movie''))
        \<lparr>body_size = 5, body_must = []\<rparr> = Inl (StoreFault ''ConnectionError'')
   \<and> run (knowledge_base down_client) demo_sdk listing_tracker
       = ([], Inl (StoreFault ''ConnectionError''))
   \<and> run_mode join_tracker = JoinMode
   \<and> es_get (es (knowledge_base down_client)) (index (MovieDocumentType ''movie''))
        (get_object_name demo_sdk join_tracker) = Inl (StoreFault ''ConnectionError'')
   \<and> run (knowledge_base down_client) demo_sdk join_tracker
       = ([], Inl (StoreFault ''ConnectionError''))"
proof -
  let ?kb = "knowledge_base down_client"
  let ?dt = "MovieDocumentType ''movie''"
  let ?body = "\<lparr>body_size = 5, body_must = []\<rparr>"
  let ?fault = "StoreFault ''ConnectionError''"
  have l1: "run_mode listing_tracker = ListingMode"
    by (simp add: run_mode_def new_request_def has_mention_def get_slot_def
        listing_tracker_def slot_names)
  have l2: "dict_find (document_types ?kb) (get_slot listing_tracker SLOT_OBJECT_TYPE)
              = Inr (Some ?dt)"
    by (simp add: knowledge_base_def get_slot_def listing_tracker_def slot_names)
  have l3: "limit_arg (get_slot listing_tracker SLOT_LIMIT) = Inr None"
    by (simp add: limit_arg_def get_slot_def listing_tracker_def slot_names)
  have l4: "search_query ?dt (get_attribute_slots listing_tracker (map fst (attributes ?dt)))
              None = Inr ?body"
    by (simp add: search_query_def MovieDocumentType_def attr_slot_def listing_tracker_def)
  have l5: "es_search (es ?kb) (index ?dt) ?body = Inl ?fault"
    by (simp add: knowledge_base_def down_client_def)
  have j1: "run_mode join_tracker = JoinMode"
    by (simp add: run_mode_def new_request_def has_mention_def get_slot_def
        join_tracker_def slot_names)
  have j2: "get_attributes_of_object ?kb (get_slot join_tracker SLOT_OBJECT_TYPE)
              = Inr (map fst (attributes (RatingDocumentType ''rating'')))"
    by (simp add: get_attributes_of_object_def knowledge_base_def get_slot_def
        join_tracker_def slot_names)
  have j3: "dict_find (document_types ?kb) (get_slot join_tracker SLOT_LAST_OBJECT_TYPE)
              = Inr (Some ?dt)"
    by (simp add: knowledge_base_def get_slot_def join_tracker_def slot_names)
  have j4: "es_get (es ?kb) (index ?dt) (get_object_name demo_sdk join_tracker) = Inl ?fault"
    by (simp add: knowledge_base_def down_client_def)
  from store_faults_propagate [where tracker = listing_tracker and kb = ?kb and dt = ?dt
         and lim = None and body = ?body and fault = ?fault and sdk = demo_sdk]
       l1 l2 l3 l4 l5
  have l: "run ?kb demo_sdk listing_tracker = ([], Inl ?fault)" by blast
  from store_faults_propagate [where tracker = join_tracker and kb = ?kb and last_dt = ?dt
         and attrs = "map fst (attributes (RatingDocumentType ''rating''))"
         and fault = ?fault and sdk = demo_sdk]
       j1 j2 j3 j4
  have j: "run ?kb demo_sdk join_tracker = ([], Inl ?fault)" by blast
  from l j l1 l2 l3 l5 j1 j4 show ?thesis by simp
qed

section \<open>Rendering\<close>

text \<open>What \<open>sanitize\<close> returns has none of the four characters, and the attribute
  answer is sanitized.\<close>

lemma sanitize_strips: "set (sanitize s) \<inter> set ''{}[]'' = {}"
  by (auto simp add: sanitize_def)

lemma sanitize_example: "sanitize ''Sci-Fi [2020]'' = ''Sci-Fi 2020''"
  by (simp add: sanitize_def)

lemma attribute_answer_sanitized:
  "py_truthy v \<Longrightarrow>
     utter_attribute_value object_name attribute_name v = [UtterText (sanitize (py_str v) @ ''.'')]"
  by (simp add: utter_attribute_value_def)

text \<open>
  Claim C8, at the failing input. The movie is titled \<open>Sci-Fi [2020]\<close>. The join
  response and the enumeration of the listing are dispatched with the square brackets
  in place: neither path calls \<open>sanitize\<close>. The attribute answer for the same title
  is dispatched as \<open>Sci-Fi 2020.\<close>, without them.
\<close>

theorem join_and_listing_render_unsanitized:
  "fst (run (knowledge_base demo_client) demo_sdk join_tracker)
     = [UtterText ''8 out of 10 (1200 votes) is the rating for movie Sci-Fi [2020] from 2020.'']
   \<and> fst (run (knowledge_base demo_client) demo_sdk listing_tracker)
     = [UtterText ''I found the following movies :'',
        UtterText ''1: Sci-Fi [2020] from 2020'']
   \<and> utter_attribute_value (PStr ''Sci-Fi [2020] from 2020'') (PStr ''title'')
        (PStr ''Sci-Fi [2020]'') = [UtterText ''Sci-Fi 2020.'']"
  by (simp add: action_defs storage_defs registry_defs example_defs slot_names Let_def
      utter_attribute_value_def sanitize_def)

end
